theory Spec2Isabelle
  imports Complex_Main "HOL-Library.Option_ord"
begin

section \<open>Schema of the migration: the four tables\<close>

text \<open>
  Column types: \<open>uuid\<close> and \<open>text\<close> are strings, \<open>timestamptz\<close> is an instant counted
  from some epoch, \<open>date\<close> is a day number, \<open>decimal(p, 8)\<close> is a number.  A column
  declared \<open>NOT NULL\<close> (or a primary key) has its plain type, every other column is an
  \<open>option\<close> with \<open>None\<close> for SQL \<open>NULL\<close>.  A coordinate is the decimal number that is
  stored; how the browser's double is rounded into \<open>decimal(10, 8)\<close> is left out.
\<close>

type_synonym uuid = string
type_synonym timestamptz = nat
type_synonym date = int
type_synonym decimal = real

record profiles_row =
  p_id :: uuid
  full_name :: string
  phone :: "string option"
  user_type :: string
  p_created_at :: "timestamptz option"
  p_updated_at :: "timestamptz option"

record vendors_row =
  v_id :: uuid
  v_user_id :: uuid
  business_name :: string
  business_type :: string
  description :: "string option"
  is_active :: "bool option"
  current_latitude :: "decimal option"
  current_longitude :: "decimal option"
  last_location_update :: "timestamptz option"
  v_created_at :: "timestamptz option"
  v_updated_at :: "timestamptz option"

record subscriptions_row =
  s_id :: uuid
  s_vendor_id :: uuid
  s_start_date :: date
  s_end_date :: date
  s_amount :: "int option"
  s_status :: string
  s_payment_date :: "timestamptz option"
  s_created_at :: "timestamptz option"

record customer_calls_row =
  c_id :: uuid
  c_customer_id :: uuid
  c_vendor_id :: uuid
  c_customer_latitude :: decimal
  c_customer_longitude :: decimal
  c_status :: string
  c_created_at :: "timestamptz option"
  c_acknowledged_at :: "timestamptz option"
  c_completed_at :: "timestamptz option"

record database =
  profiles :: "profiles_row list"
  vendors :: "vendors_row list"
  subscriptions :: "subscriptions_row list"
  customer_calls :: "customer_calls_row list"

text \<open>
  The request's role and principal.  Every policy of the migration is declared
  \<open>TO authenticated\<close>; \<open>auth.uid()\<close> is the principal of an authenticated request and
  \<open>NULL\<close> otherwise.
\<close>

datatype session = Anon | Authenticated uuid

fun auth_uid :: "session \<Rightarrow> uuid option" where
  "auth_uid Anon = None"
| "auth_uid (Authenticated u) = Some u"

fun authenticated :: "session \<Rightarrow> bool" where
  "authenticated Anon = False"
| "authenticated (Authenticated u) = True"

section \<open>Statements under row level security\<close>

datatype db_error =
  RlsViolation | NotNullViolation | CheckViolation | UniqueViolation | ForeignKeyViolation

text \<open>
  \<open>UPDATE t SET ... WHERE ...\<close> on a table with row level security enabled.  A row is
  hit when it satisfies the \<open>WHERE\<close> clause and the \<open>USING\<close> expressions that apply
  (\<open>hit\<close>); rows that are not hit are skipped silently.  For a hit row the new row is
  computed (\<open>SET\<close> list, then the \<open>BEFORE UPDATE\<close> trigger: \<open>new\<close>), then the policy
  expressions that apply to a new row (\<open>chk\<close>: the update policy's \<open>WITH CHECK\<close>, and the
  select policy, since the statement reads the table) and the table's \<open>CHECK\<close>
  constraints are evaluated on it; a failure aborts the whole statement.  The result is
  the error, or the number of rows updated and the new table.  The \<open>SET\<close> lists below
  never assign a key column, so primary, unique and foreign keys are not checked again.
\<close>

fun update_rows ::
  "('r \<Rightarrow> bool) \<Rightarrow> ('r \<Rightarrow> 'r) \<Rightarrow> ('r \<Rightarrow> bool) \<Rightarrow> ('r \<Rightarrow> bool) \<Rightarrow> 'r list
    \<Rightarrow> db_error + (nat \<times> 'r list)" where
  "update_rows hit new chk constr [] = Inr (0, [])"
| "update_rows hit new chk constr (r # rs) =
     (if hit r then
        (if \<not> chk (new r) then Inl RlsViolation
         else if \<not> constr (new r) then Inl CheckViolation
         else (case update_rows hit new chk constr rs of
                 Inl e \<Rightarrow> Inl e
               | Inr (n, rs') \<Rightarrow> Inr (Suc n, new r # rs')))
      else (case update_rows hit new chk constr rs of
              Inl e \<Rightarrow> Inl e
            | Inr (n, rs') \<Rightarrow> Inr (n, r # rs')))"

text \<open>\<open>.maybeSingle()\<close>: the row when there is exactly one, \<open>null\<close> for none, and \<open>null\<close>
  data (with an error) for several.\<close>

fun maybeSingle :: "'r list \<Rightarrow> 'r option" where
  "maybeSingle [r] = Some r"
| "maybeSingle rs = None"

text \<open>The filters \<open>.eq('id', x)\<close> on the three tables that are updated.\<close>

definition profile_id_eq :: "uuid \<Rightarrow> profiles_row \<Rightarrow> bool" where
  "profile_id_eq x r = (p_id r = x)"

definition vendor_id_eq :: "uuid \<Rightarrow> vendors_row \<Rightarrow> bool" where
  "vendor_id_eq x r = (v_id r = x)"

definition call_id_eq :: "uuid \<Rightarrow> customer_calls_row \<Rightarrow> bool" where
  "call_id_eq x r = (c_id r = x)"

section \<open>Policies and constraints of the migration\<close>

subsection \<open>profiles\<close>

text \<open>\<open>"Users can view all profiles"\<close>: \<open>FOR SELECT TO authenticated USING (true)\<close>\<close>

definition profiles_select_policy :: "session \<Rightarrow> profiles_row \<Rightarrow> bool" where
  "profiles_select_policy s r = authenticated s"

text \<open>\<open>"Users can update own profile"\<close>: \<open>USING (auth.uid() = id) WITH CHECK (auth.uid() = id)\<close>\<close>

definition profiles_update_using :: "session \<Rightarrow> profiles_row \<Rightarrow> bool" where
  "profiles_update_using s r = (authenticated s \<and> auth_uid s = Some (p_id r))"

definition profiles_update_check :: "session \<Rightarrow> profiles_row \<Rightarrow> bool" where
  "profiles_update_check s r = (authenticated s \<and> auth_uid s = Some (p_id r))"

text \<open>\<open>CHECK (user_type IN ('vendor', 'customer'))\<close>\<close>

definition profiles_check :: "profiles_row \<Rightarrow> bool" where
  "profiles_check r = (user_type r \<in> set [''vendor'', ''customer''])"

subsection \<open>vendors\<close>

text \<open>\<open>"Anyone can view active vendors"\<close>: \<open>FOR SELECT TO authenticated USING (true)\<close>\<close>

definition vendors_select_policy :: "session \<Rightarrow> vendors_row \<Rightarrow> bool" where
  "vendors_select_policy s v = authenticated s"

text \<open>\<open>"Vendors can update own data"\<close>: \<open>USING (user_id = auth.uid()) WITH CHECK (user_id = auth.uid())\<close>\<close>

definition vendors_update_using :: "session \<Rightarrow> vendors_row \<Rightarrow> bool" where
  "vendors_update_using s v = (authenticated s \<and> Some (v_user_id v) = auth_uid s)"

definition vendors_update_check :: "session \<Rightarrow> vendors_row \<Rightarrow> bool" where
  "vendors_update_check s v = (authenticated s \<and> Some (v_user_id v) = auth_uid s)"

text \<open>\<open>"Vendors can insert own data"\<close>: \<open>WITH CHECK (user_id = auth.uid())\<close>\<close>

definition vendors_insert_check :: "session \<Rightarrow> vendors_row \<Rightarrow> bool" where
  "vendors_insert_check s v = (authenticated s \<and> Some (v_user_id v) = auth_uid s)"

text \<open>
  The sub-query \<open>SELECT id FROM vendors WHERE user_id = auth.uid()\<close> that the policies
  of subscriptions and customer_calls share; it reads vendors under the caller's own
  select policy.
\<close>

definition owned_vendor_ids :: "session \<Rightarrow> vendors_row list \<Rightarrow> uuid list" where
  "owned_vendor_ids s vs =
     map v_id (filter (\<lambda>v. vendors_select_policy s v \<and> Some (v_user_id v) = auth_uid s) vs)"

subsection \<open>subscriptions\<close>

text \<open>The three policies (select, insert, update) all carry the expression
  \<open>vendor_id IN (SELECT id FROM vendors WHERE user_id = auth.uid())\<close>.\<close>

definition subscriptions_select_policy :: "session \<Rightarrow> database \<Rightarrow> subscriptions_row \<Rightarrow> bool" where
  "subscriptions_select_policy s db r =
     (authenticated s \<and> s_vendor_id r \<in> set (owned_vendor_ids s (vendors db)))"

definition subscriptions_insert_check :: "session \<Rightarrow> database \<Rightarrow> subscriptions_row \<Rightarrow> bool" where
  "subscriptions_insert_check s db r =
     (authenticated s \<and> s_vendor_id r \<in> set (owned_vendor_ids s (vendors db)))"

text \<open>\<open>CHECK (status IN ('active', 'expired', 'pending'))\<close>\<close>

definition subscriptions_check :: "subscriptions_row \<Rightarrow> bool" where
  "subscriptions_check r = (s_status r \<in> set [''active'', ''expired'', ''pending''])"

subsection \<open>customer_calls\<close>

text \<open>\<open>"Customers can view own calls"\<close>: \<open>USING (customer_id = auth.uid())\<close>\<close>

definition calls_select_customer :: "session \<Rightarrow> customer_calls_row \<Rightarrow> bool" where
  "calls_select_customer s r = (authenticated s \<and> Some (c_customer_id r) = auth_uid s)"

text \<open>\<open>"Vendors can view calls to them"\<close>: \<open>USING (vendor_id IN (SELECT ...))\<close>\<close>

definition calls_select_vendor :: "session \<Rightarrow> database \<Rightarrow> customer_calls_row \<Rightarrow> bool" where
  "calls_select_vendor s db r =
     (authenticated s \<and> c_vendor_id r \<in> set (owned_vendor_ids s (vendors db)))"

text \<open>Permissive policies of one command are combined with OR.\<close>

definition calls_select_policy :: "session \<Rightarrow> database \<Rightarrow> customer_calls_row \<Rightarrow> bool" where
  "calls_select_policy s db r = (calls_select_customer s r \<or> calls_select_vendor s db r)"

text \<open>\<open>"Customers can create calls"\<close>: \<open>WITH CHECK (customer_id = auth.uid())\<close>\<close>

definition calls_insert_check :: "session \<Rightarrow> customer_calls_row \<Rightarrow> bool" where
  "calls_insert_check s r = (authenticated s \<and> Some (c_customer_id r) = auth_uid s)"

text \<open>\<open>"Vendors can update calls to them"\<close>: \<open>USING\<close> and \<open>WITH CHECK\<close> are the same
  expression, the first on the stored row and the second on the new row.\<close>

definition calls_update_using :: "session \<Rightarrow> database \<Rightarrow> customer_calls_row \<Rightarrow> bool" where
  "calls_update_using s db r =
     (authenticated s \<and> c_vendor_id r \<in> set (owned_vendor_ids s (vendors db)))"

definition calls_update_check :: "session \<Rightarrow> database \<Rightarrow> customer_calls_row \<Rightarrow> bool" where
  "calls_update_check s db r =
     (authenticated s \<and> c_vendor_id r \<in> set (owned_vendor_ids s (vendors db)))"

text \<open>\<open>CHECK (status IN ('pending', 'acknowledged', 'completed'))\<close>\<close>

definition calls_check :: "customer_calls_row \<Rightarrow> bool" where
  "calls_check r = (c_status r \<in> set [''pending'', ''acknowledged'', ''completed''])"

section \<open>Updates of customer_calls\<close>

text \<open>
  The object passed to \<open>.update(...)\<close>: a key that is absent (\<open>None\<close>) leaves its column
  alone.  Only the status and its two timestamps are ever assigned.
\<close>

record call_patch =
  set_status :: "string option"
  set_acknowledged_at :: "timestamptz option"
  set_completed_at :: "timestamptz option"

definition apply_call_patch :: "call_patch \<Rightarrow> customer_calls_row \<Rightarrow> customer_calls_row" where
  "apply_call_patch p r =
     r\<lparr>c_status := (case set_status p of None \<Rightarrow> c_status r | Some x \<Rightarrow> x),
       c_acknowledged_at :=
         (case set_acknowledged_at p of None \<Rightarrow> c_acknowledged_at r | Some t \<Rightarrow> Some t),
       c_completed_at :=
         (case set_completed_at p of None \<Rightarrow> c_completed_at r | Some t \<Rightarrow> Some t)\<rparr>"

text \<open>
  An update of one stored row into a new row is permitted by the policy layer when
  the stored row passes \<open>USING\<close> and the new row passes \<open>WITH CHECK\<close>; both must also
  be visible to the caller (the select policy), since the statement's \<open>WHERE\<close> reads the
  table.
\<close>

definition calls_update_permitted ::
  "session \<Rightarrow> database \<Rightarrow> customer_calls_row \<Rightarrow> customer_calls_row \<Rightarrow> bool" where
  "calls_update_permitted s db old new =
     (calls_select_policy s db old \<and> calls_update_using s db old \<and>
      calls_select_policy s db new \<and> calls_update_check s db new)"

text \<open>\<open>supabase.from('customer_calls').update(patch)\<close> with the filter \<open>wh\<close>, issued by \<open>s\<close>.\<close>

definition update_customer_calls ::
  "session \<Rightarrow> database \<Rightarrow> (customer_calls_row \<Rightarrow> bool) \<Rightarrow> call_patch
     \<Rightarrow> db_error + (nat \<times> customer_calls_row list)" where
  "update_customer_calls s db wh p =
     update_rows (\<lambda>r. wh r \<and> calls_select_policy s db r \<and> calls_update_using s db r)
       (apply_call_patch p) (\<lambda>r. calls_select_policy s db r \<and> calls_update_check s db r)
       calls_check (customer_calls db)"

text \<open>The caller owns vendor \<open>vid\<close>: the vendors table resolves it to the caller's identity.\<close>

definition owns_vendor :: "session \<Rightarrow> database \<Rightarrow> uuid \<Rightarrow> bool" where
  "owns_vendor s db vid =
     (\<exists>v \<in> set (vendors db). v_id v = vid \<and> auth_uid s = Some (v_user_id v))"

section \<open>Updates of vendors and profiles\<close>

record vendor_patch =
  set_is_active :: "bool option"
  set_current_latitude :: "decimal option"
  set_current_longitude :: "decimal option"
  set_last_location_update :: "timestamptz option"

definition apply_vendor_patch :: "vendor_patch \<Rightarrow> vendors_row \<Rightarrow> vendors_row" where
  "apply_vendor_patch p v =
     v\<lparr>is_active := (case set_is_active p of None \<Rightarrow> is_active v | Some b \<Rightarrow> Some b),
       current_latitude :=
         (case set_current_latitude p of None \<Rightarrow> current_latitude v | Some x \<Rightarrow> Some x),
       current_longitude :=
         (case set_current_longitude p of None \<Rightarrow> current_longitude v | Some x \<Rightarrow> Some x),
       last_location_update :=
         (case set_last_location_update p of None \<Rightarrow> last_location_update v
          | Some t \<Rightarrow> Some t)\<rparr>"

text \<open>\<open>update_updated_at_column()\<close>, the \<open>BEFORE UPDATE\<close> trigger of vendors and of
  profiles: \<open>NEW.updated_at = now()\<close>, the server's clock.\<close>

definition update_vendors_updated_at :: "timestamptz \<Rightarrow> vendors_row \<Rightarrow> vendors_row" where
  "update_vendors_updated_at now v = v\<lparr>v_updated_at := Some now\<rparr>"

definition update_profiles_updated_at :: "timestamptz \<Rightarrow> profiles_row \<Rightarrow> profiles_row" where
  "update_profiles_updated_at now r = r\<lparr>p_updated_at := Some now\<rparr>"

text \<open>\<open>supabase.from('vendors').update(patch)\<close> with the filter \<open>wh\<close>; vendors has no
  \<open>CHECK\<close> constraint.\<close>

definition update_vendors ::
  "session \<Rightarrow> timestamptz \<Rightarrow> database \<Rightarrow> (vendors_row \<Rightarrow> bool) \<Rightarrow> vendor_patch
     \<Rightarrow> db_error + (nat \<times> vendors_row list)" where
  "update_vendors s now db wh p =
     update_rows (\<lambda>v. wh v \<and> vendors_select_policy s v \<and> vendors_update_using s v)
       (\<lambda>v. update_vendors_updated_at now (apply_vendor_patch p v))
       (\<lambda>v. vendors_select_policy s v \<and> vendors_update_check s v) (\<lambda>v. True) (vendors db)"

record profile_patch =
  set_full_name :: "string option"
  set_phone :: "string option"
  set_user_type :: "string option"

definition apply_profile_patch :: "profile_patch \<Rightarrow> profiles_row \<Rightarrow> profiles_row" where
  "apply_profile_patch p r =
     r\<lparr>full_name := (case set_full_name p of None \<Rightarrow> full_name r | Some x \<Rightarrow> x),
       phone := (case set_phone p of None \<Rightarrow> phone r | Some x \<Rightarrow> Some x),
       user_type := (case set_user_type p of None \<Rightarrow> user_type r | Some x \<Rightarrow> x)\<rparr>"

definition profiles_update_permitted :: "session \<Rightarrow> profiles_row \<Rightarrow> profiles_row \<Rightarrow> bool" where
  "profiles_update_permitted s old new =
     (profiles_select_policy s old \<and> profiles_update_using s old \<and>
      profiles_select_policy s new \<and> profiles_update_check s new)"

definition update_profiles ::
  "session \<Rightarrow> timestamptz \<Rightarrow> database \<Rightarrow> (profiles_row \<Rightarrow> bool) \<Rightarrow> profile_patch
     \<Rightarrow> db_error + (nat \<times> profiles_row list)" where
  "update_profiles s now db wh p =
     update_rows (\<lambda>r. wh r \<and> profiles_select_policy s r \<and> profiles_update_using s r)
       (\<lambda>r. update_profiles_updated_at now (apply_profile_patch p r))
       (\<lambda>r. profiles_select_policy s r \<and> profiles_update_check s r) profiles_check
       (profiles db)"

section \<open>Reads\<close>

text \<open>A \<open>SELECT\<close> returns the rows that pass the table's select policy; a caller that
  no policy admits gets the empty result, not an error.\<close>

definition select_profiles :: "session \<Rightarrow> database \<Rightarrow> profiles_row list" where
  "select_profiles s db = filter (profiles_select_policy s) (profiles db)"

definition select_vendors :: "session \<Rightarrow> database \<Rightarrow> vendors_row list" where
  "select_vendors s db = filter (vendors_select_policy s) (vendors db)"

definition select_subscriptions :: "session \<Rightarrow> database \<Rightarrow> subscriptions_row list" where
  "select_subscriptions s db = filter (subscriptions_select_policy s db) (subscriptions db)"

definition select_customer_calls :: "session \<Rightarrow> database \<Rightarrow> customer_calls_row list" where
  "select_customer_calls s db = filter (calls_select_policy s db) (customer_calls db)"

section \<open>Inserts\<close>

text \<open>
  \<open>INSERT\<close>: columns absent from the inserted object take their \<open>DEFAULT\<close>
  (\<open>gen_random_uuid()\<close> is the parameter \<open>new_id\<close>, \<open>now()\<close> the parameter \<open>now\<close>); the
  insert policy's \<open>WITH CHECK\<close> is evaluated on the completed row, then the \<open>CHECK\<close>
  constraint, the primary key and unique constraints, and the foreign keys.
\<close>

record vendor_insert =
  vi_user_id :: uuid
  vi_business_name :: string
  vi_business_type :: string
  vi_description :: string

definition insert_vendors ::
  "session \<Rightarrow> uuid \<Rightarrow> timestamptz \<Rightarrow> database \<Rightarrow> vendor_insert \<Rightarrow> db_error + vendors_row list" where
  "insert_vendors s new_id now db p =
     (let row = \<lparr>v_id = new_id, v_user_id = vi_user_id p, business_name = vi_business_name p,
                 business_type = vi_business_type p, description = Some (vi_description p),
                 is_active = Some False, current_latitude = None, current_longitude = None,
                 last_location_update = None, v_created_at = Some now, v_updated_at = Some now\<rparr>
      in if \<not> vendors_insert_check s row then Inl RlsViolation
         else if v_id row \<in> set (map v_id (vendors db))
                 \<or> v_user_id row \<in> set (map v_user_id (vendors db)) then Inl UniqueViolation
         else if v_user_id row \<notin> set (map p_id (profiles db)) then Inl ForeignKeyViolation
         else Inr (vendors db @ [row]))"

text \<open>For subscriptions, \<open>amount\<close> and \<open>status\<close> may be absent (\<open>None\<close>):
  \<open>amount integer DEFAULT 5000\<close>, \<open>status text NOT NULL CHECK (...) DEFAULT 'pending'\<close>.\<close>

record subscription_insert =
  si_vendor_id :: uuid
  si_start_date :: date
  si_end_date :: date
  si_amount :: "int option"
  si_status :: "string option"
  si_payment_date :: "timestamptz option"

definition subscription_defaults ::
  "uuid \<Rightarrow> timestamptz \<Rightarrow> subscription_insert \<Rightarrow> subscriptions_row" where
  "subscription_defaults new_id now p =
     \<lparr>s_id = new_id, s_vendor_id = si_vendor_id p, s_start_date = si_start_date p,
      s_end_date = si_end_date p,
      s_amount = (case si_amount p of None \<Rightarrow> Some 5000 | Some a \<Rightarrow> Some a),
      s_status = (case si_status p of None \<Rightarrow> ''pending'' | Some x \<Rightarrow> x),
      s_payment_date = si_payment_date p, s_created_at = Some now\<rparr>"

definition insert_subscriptions ::
  "session \<Rightarrow> uuid \<Rightarrow> timestamptz \<Rightarrow> database \<Rightarrow> subscription_insert
     \<Rightarrow> db_error + subscriptions_row list" where
  "insert_subscriptions s new_id now db p =
     (let row = subscription_defaults new_id now p
      in if \<not> subscriptions_insert_check s db row then Inl RlsViolation
         else if \<not> subscriptions_check row then Inl CheckViolation
         else if s_id row \<in> set (map s_id (subscriptions db)) then Inl UniqueViolation
         else if s_vendor_id row \<notin> set (map v_id (vendors db)) then Inl ForeignKeyViolation
         else Inr (subscriptions db @ [row]))"

record call_insert =
  ci_customer_id :: uuid
  ci_vendor_id :: uuid
  ci_customer_latitude :: decimal
  ci_customer_longitude :: decimal
  ci_status :: "string option"

definition call_defaults :: "uuid \<Rightarrow> timestamptz \<Rightarrow> call_insert \<Rightarrow> customer_calls_row" where
  "call_defaults new_id now p =
     \<lparr>c_id = new_id, c_customer_id = ci_customer_id p, c_vendor_id = ci_vendor_id p,
      c_customer_latitude = ci_customer_latitude p,
      c_customer_longitude = ci_customer_longitude p,
      c_status = (case ci_status p of None \<Rightarrow> ''pending'' | Some x \<Rightarrow> x),
      c_created_at = Some now, c_acknowledged_at = None, c_completed_at = None\<rparr>"

definition insert_customer_calls ::
  "session \<Rightarrow> uuid \<Rightarrow> timestamptz \<Rightarrow> database \<Rightarrow> call_insert
     \<Rightarrow> db_error + customer_calls_row list" where
  "insert_customer_calls s new_id now db p =
     (let row = call_defaults new_id now p
      in if \<not> calls_insert_check s row then Inl RlsViolation
         else if \<not> calls_check row then Inl CheckViolation
         else if c_id row \<in> set (map c_id (customer_calls db)) then Inl UniqueViolation
         else if c_customer_id row \<notin> set (map p_id (profiles db))
                 \<or> c_vendor_id row \<notin> set (map v_id (vendors db)) then Inl ForeignKeyViolation
         else Inr (customer_calls db @ [row]))"

section \<open>The vendor dashboard\<close>

text \<open>The component's state.  \<open>calls\<close> holds rows of customer_calls as they were read,
  each with the embedded profile of its customer (\<open>profiles:customer_id(full_name, phone)\<close>).\<close>

record Call =
  call_row :: customer_calls_row
  call_profiles :: "(string \<times> string option) option"

record Subscription =
  status :: string
  end_date :: date

record dashboard =
  vendor :: "vendors_row option"
  calls :: "Call list"
  subscription :: "Subscription option"
  loading :: bool
  locationTracking :: bool

text \<open>
  \<open>acknowledgeCall\<close>: the update is awaited, its result (\<open>data\<close>, \<open>error\<close>) is dropped, and
  the call is filtered out of the local list.  \<open>now\<close> is the browser's clock
  (\<open>new Date().toISOString()\<close>).
\<close>

definition acknowledgeCall ::
  "session \<Rightarrow> timestamptz \<Rightarrow> uuid \<Rightarrow> database \<times> dashboard \<Rightarrow> database \<times> dashboard" where
  "acknowledgeCall s now callId = (\<lambda>(db, st).
     let res = update_customer_calls s db (call_id_eq callId)
                 \<lparr>set_status = Some ''acknowledged'', set_acknowledged_at = Some now,
                  set_completed_at = None\<rparr>;
         db' = (case res of Inl e \<Rightarrow> db | Inr (n, t) \<Rightarrow> db\<lparr>customer_calls := t\<rparr>)
     in (db', st\<lparr>calls := filter (\<lambda>c. c_id (call_row c) \<noteq> callId) (calls st)\<rparr>))"

text \<open>
  \<open>loadVendorData\<close>: nothing without a signed-in user; otherwise the caller's vendor row,
  and when there is one, its pending calls (newest first; \<open>DESC\<close> puts \<open>NULL\<close> first) and
  the subscription with status \<open>active\<close> and the latest \<open>end_date\<close>.
\<close>

definition embed_profile :: "session \<Rightarrow> database \<Rightarrow> customer_calls_row \<Rightarrow> Call" where
  "embed_profile s db r =
     \<lparr>call_row = r,
      call_profiles =
        map_option (\<lambda>p. (full_name p, phone p))
          (find (\<lambda>p. p_id p = c_customer_id r) (select_profiles s db))\<rparr>"

definition pending_calls_query :: "session \<Rightarrow> database \<Rightarrow> uuid \<Rightarrow> Call list" where
  "pending_calls_query s db vid =
     map (embed_profile s db)
       (sort_key (\<lambda>r. map_option (\<lambda>t. - int t) (c_created_at r))
          (filter (\<lambda>r. c_vendor_id r = vid \<and> c_status r = ''pending'')
             (select_customer_calls s db)))"

definition subscription_query :: "session \<Rightarrow> database \<Rightarrow> uuid \<Rightarrow> Subscription option" where
  "subscription_query s db vid =
     map_option (\<lambda>r. \<lparr>status = s_status r, end_date = s_end_date r\<rparr>)
       (maybeSingle (take 1
          (sort_key (\<lambda>r. - s_end_date r)
             (filter (\<lambda>r. s_vendor_id r = vid \<and> s_status r = ''active'')
                (select_subscriptions s db)))))"

definition loadVendorData :: "session \<Rightarrow> database \<Rightarrow> dashboard \<Rightarrow> dashboard" where
  "loadVendorData s db st =
     (case auth_uid s of
        None \<Rightarrow> st
      | Some uid \<Rightarrow>
          (case maybeSingle (filter (\<lambda>v. v_user_id v = uid) (select_vendors s db)) of
             None \<Rightarrow> st\<lparr>loading := False\<rparr>
           | Some vendorData \<Rightarrow>
               st\<lparr>vendor := Some vendorData,
                  locationTracking := (is_active vendorData = Some True),
                  calls := pending_calls_query s db (v_id vendorData),
                  subscription := subscription_query s db (v_id vendorData),
                  loading := False\<rparr>))"

text \<open>\<open>const isSubscriptionExpired = !subscription || subscription.status !== 'active'\<close>\<close>

definition isSubscriptionExpired :: "dashboard \<Rightarrow> bool" where
  "isSubscriptionExpired st =
     (case subscription st of None \<Rightarrow> True | Some sub \<Rightarrow> status sub \<noteq> ''active'')"

text \<open>What the component renders: the loading text, the setup form, or the dashboard
  whose toggle button carries \<open>disabled={isSubscriptionExpired}\<close>.\<close>

datatype screen = LoadingScreen | SetupScreen | DashboardScreen (toggle_disabled: bool)

definition render :: "dashboard \<Rightarrow> screen" where
  "render st =
     (if loading st then LoadingScreen
      else if vendor st = None then SetupScreen
      else DashboardScreen (isSubscriptionExpired st))"

text \<open>\<open>position.coords\<close> of the geolocation API.\<close>

record position =
  latitude :: decimal
  longitude :: decimal

definition commit_vendors ::
  "database \<Rightarrow> db_error + (nat \<times> vendors_row list) \<Rightarrow> database" where
  "commit_vendors db res = (case res of Inl e \<Rightarrow> db | Inr (n, t) \<Rightarrow> db\<lparr>vendors := t\<rparr>)"

text \<open>
  \<open>toggleLocationTracking\<close>.  \<open>geo\<close> is what \<open>getCurrentPosition\<close> delivers: \<open>None\<close> when
  the browser has no geolocation or the success callback is never called.  The two
  clocks are the browser's (\<open>new Date()\<close>) and the server's (\<open>now()\<close> of the trigger).
\<close>

definition toggleLocationTracking ::
  "session \<Rightarrow> timestamptz \<Rightarrow> timestamptz \<Rightarrow> position option \<Rightarrow> database \<times> dashboard
     \<Rightarrow> database \<times> dashboard" where
  "toggleLocationTracking s client_now server_now geo = (\<lambda>(db, st).
     case vendor st of
       None \<Rightarrow> (db, st)
     | Some v \<Rightarrow>
         if \<not> locationTracking st then
           (case geo of
              None \<Rightarrow> (db, st)
            | Some pos \<Rightarrow>
                (commit_vendors db
                   (update_vendors s server_now db (vendor_id_eq (v_id v))
                      \<lparr>set_is_active = Some True,
                       set_current_latitude = Some (latitude pos),
                       set_current_longitude = Some (longitude pos),
                       set_last_location_update = Some client_now\<rparr>),
                 st\<lparr>locationTracking := True, vendor := Some (v\<lparr>is_active := Some True\<rparr>)\<rparr>))
         else
           (commit_vendors db
              (update_vendors s server_now db (vendor_id_eq (v_id v))
                 \<lparr>set_is_active = Some False, set_current_latitude = None,
                  set_current_longitude = None, set_last_location_update = None\<rparr>),
            st\<lparr>locationTracking := False, vendor := Some (v\<lparr>is_active := Some False\<rparr>)\<rparr>))"

text \<open>The \<open>watchPosition\<close> callback registered by \<open>startLocationUpdates\<close>, called with one
  position sample.\<close>

definition startLocationUpdates_callback ::
  "session \<Rightarrow> timestamptz \<Rightarrow> timestamptz \<Rightarrow> position \<Rightarrow> database \<times> dashboard
     \<Rightarrow> database \<times> dashboard" where
  "startLocationUpdates_callback s client_now server_now pos = (\<lambda>(db, st).
     case vendor st of
       None \<Rightarrow> (db, st)
     | Some v \<Rightarrow>
         (commit_vendors db
            (update_vendors s server_now db (vendor_id_eq (v_id v))
               \<lparr>set_is_active = None,
                set_current_latitude = Some (latitude pos),
                set_current_longitude = Some (longitude pos),
                set_last_location_update = Some client_now\<rparr>),
          st))"

text \<open>\<open>VendorSetupForm.handleSubmit\<close>: the insert, then \<open>onComplete\<close> (which is
  \<open>loadVendorData\<close>) when there was no error.  \<open>userId\<close> is \<open>user?.id || ''\<close>.\<close>

definition vendorSetup_handleSubmit ::
  "session \<Rightarrow> uuid \<Rightarrow> timestamptz \<Rightarrow> string \<Rightarrow> string \<Rightarrow> string \<Rightarrow> database \<times> dashboard
     \<Rightarrow> database \<times> dashboard" where
  "vendorSetup_handleSubmit s new_id server_now businessName businessType descr = (\<lambda>(db, st).
     case insert_vendors s new_id server_now db
            \<lparr>vi_user_id = (case auth_uid s of None \<Rightarrow> [] | Some u \<Rightarrow> u),
             vi_business_name = businessName, vi_business_type = businessType,
             vi_description = descr\<rparr> of
       Inl e \<Rightarrow> (db, st)
     | Inr t \<Rightarrow> (db\<lparr>vendors := t\<rparr>, loadVendorData s (db\<lparr>vendors := t\<rparr>) st))"

section \<open>The subscription manager and the customer dashboard\<close>

text \<open>
  \<open>SubscriptionManager.handlePayment\<close>: \<open>today\<close> and \<open>month_later\<close> are the two dates the
  browser computes (\<open>new Date()\<close>, and the same with \<open>setMonth(getMonth() + 1)\<close>).  The
  result is the database and whether the insert reported no error (\<open>success\<close>).
\<close>

definition handlePayment ::
  "session \<Rightarrow> uuid \<Rightarrow> timestamptz \<Rightarrow> timestamptz \<Rightarrow> date \<Rightarrow> date \<Rightarrow> uuid \<Rightarrow> database
     \<Rightarrow> database \<times> bool" where
  "handlePayment s new_id client_now server_now today month_later vendorId db =
     (case insert_subscriptions s new_id server_now db
            \<lparr>si_vendor_id = vendorId, si_start_date = today, si_end_date = month_later,
             si_amount = Some 5000, si_status = Some ''active'',
             si_payment_date = Some client_now\<rparr> of
        Inl e \<Rightarrow> (db, False)
      | Inr t \<Rightarrow> (db\<lparr>subscriptions := t\<rparr>, True))"

text \<open>\<open>CustomerDashboard.callVendor\<close>: nothing without a user and a location; the result
  is the database and \<open>callingSent\<close>.\<close>

record userLocation =
  lat :: decimal
  lng :: decimal

definition callVendor ::
  "session \<Rightarrow> uuid \<Rightarrow> timestamptz \<Rightarrow> userLocation option \<Rightarrow> uuid \<Rightarrow> database
     \<Rightarrow> database \<times> uuid option" where
  "callVendor s new_id server_now loc vendorId db =
     (case (auth_uid s, loc) of
        (Some uid, Some l) \<Rightarrow>
          (case insert_customer_calls s new_id server_now db
                  \<lparr>ci_customer_id = uid, ci_vendor_id = vendorId,
                   ci_customer_latitude = lat l, ci_customer_longitude = lng l,
                   ci_status = Some ''pending''\<rparr> of
             Inl e \<Rightarrow> (db, None)
           | Inr t \<Rightarrow> (db\<lparr>customer_calls := t\<rparr>, Some vendorId))
      | _ \<Rightarrow> (db, None))"

section \<open>The application as a transition system\<close>

text \<open>Every handler of the presentation layer that reads or writes the database, with
  the session that runs it and what its environment supplies.\<close>

datatype event =
    LoadVendorData session
  | ToggleLocationTracking session timestamptz timestamptz "position option"
  | WatchPosition session timestamptz timestamptz position
  | AcknowledgeCall session timestamptz uuid
  | VendorSetup session uuid timestamptz string string string
  | HandlePayment session uuid timestamptz timestamptz date date uuid
  | CallVendor session uuid timestamptz "userLocation option" uuid

fun step :: "event \<Rightarrow> database \<times> dashboard \<Rightarrow> database \<times> dashboard" where
  "step (LoadVendorData s) (db, st) = (db, loadVendorData s db st)"
| "step (ToggleLocationTracking s tc ts geo) w = toggleLocationTracking s tc ts geo w"
| "step (WatchPosition s tc ts pos) w = startLocationUpdates_callback s tc ts pos w"
| "step (AcknowledgeCall s tc callId) w = acknowledgeCall s tc callId w"
| "step (VendorSetup s new_id ts bn bt d) w = vendorSetup_handleSubmit s new_id ts bn bt d w"
| "step (HandlePayment s new_id tc ts today later vid) (db, st) =
     (fst (handlePayment s new_id tc ts today later vid db), st)"
| "step (CallVendor s new_id ts loc vid) (db, st) =
     (fst (callVendor s new_id ts loc vid db), st)"

fun run :: "event list \<Rightarrow> database \<times> dashboard \<Rightarrow> database \<times> dashboard" where
  "run [] w = w"
| "run (e # es) w = run es (step e w)"

text \<open>The position of a status in the lifecycle pending, acknowledged, completed.\<close>

definition status_rank :: "string \<Rightarrow> nat" where
  "status_rank x = (if x = ''pending'' then 0 else if x = ''acknowledged'' then 1 else 2)"

section \<open>Vocabulary of the properties\<close>

text \<open>A later table advances an earlier one when every row of the earlier one is still in
  its place, under the same id, with a status that is not earlier in the lifecycle.\<close>

definition calls_advance :: "customer_calls_row list \<Rightarrow> customer_calls_row list \<Rightarrow> bool" where
  "calls_advance old new =
     (length old \<le> length new \<and>
      (\<forall>i < length old. c_id (new ! i) = c_id (old ! i) \<and>
         status_rank (c_status (old ! i)) \<le> status_rank (c_status (new ! i))))"

text \<open>No row has reached \<open>completed\<close>.\<close>

definition lifecycle_open :: "customer_calls_row list \<Rightarrow> bool" where
  "lifecycle_open cs = (\<forall>r \<in> set cs. c_status r = ''pending'' \<or> c_status r = ''acknowledged'')"

text \<open>A covering subscription, in the words of the specification: a subscription of the
  vendor whose status is active and whose end date is not before the current date.\<close>

definition covering_subscription :: "database \<Rightarrow> uuid \<Rightarrow> date \<Rightarrow> bool" where
  "covering_subscription db vid today =
     (\<exists>r \<in> set (subscriptions db).
        s_vendor_id r = vid \<and> s_status r = ''active'' \<and> today \<le> s_end_date r)"

text \<open>The vendor has a subscription whose status is active, whatever its dates.\<close>

definition has_active_subscription :: "database \<Rightarrow> uuid \<Rightarrow> bool" where
  "has_active_subscription db vid =
     (\<exists>r \<in> set (subscriptions db). s_vendor_id r = vid \<and> s_status r = ''active'')"

text \<open>The one handler whose update carries the key \<open>is_active\<close>.\<close>

fun is_toggle :: "event \<Rightarrow> bool" where
  "is_toggle (ToggleLocationTracking s tc ts geo) = True"
| "is_toggle e = False"

section \<open>A small marketplace\<close>

text \<open>
  Alice owns the vendor \<open>stall\<close>; Bob is a customer.  Bob's call comes from
  (-6.2, 106.816666); Alice has also placed a call to her own stall, which the insert
  policy (\<open>customer_id = auth.uid()\<close>) admits.
\<close>

definition alice_profile :: profiles_row where
  "alice_profile = \<lparr>p_id = ''alice'', full_name = ''Alice'', phone = None,
     user_type = ''vendor'', p_created_at = Some 1, p_updated_at = Some 1\<rparr>"

definition bob_profile :: profiles_row where
  "bob_profile = \<lparr>p_id = ''bob'', full_name = ''Bob'', phone = Some ''0812'',
     user_type = ''customer'', p_created_at = Some 2, p_updated_at = Some 2\<rparr>"

definition stall :: vendors_row where
  "stall = \<lparr>v_id = ''stall'', v_user_id = ''alice'', business_name = ''Bakso'',
     business_type = ''Makanan'', description = Some [], is_active = Some True,
     current_latitude = Some (- 621 / 100), current_longitude = Some (10682 / 100),
     last_location_update = Some 5, v_created_at = Some 3, v_updated_at = Some 5\<rparr>"

definition bob_call :: customer_calls_row where
  "bob_call = \<lparr>c_id = ''call1'', c_customer_id = ''bob'', c_vendor_id = ''stall'',
     c_customer_latitude = - 62 / 10, c_customer_longitude = 106816666 / 1000000,
     c_status = ''pending'', c_created_at = Some 10, c_acknowledged_at = None,
     c_completed_at = None\<rparr>"

definition alice_call :: customer_calls_row where
  "alice_call = \<lparr>c_id = ''call2'', c_customer_id = ''alice'', c_vendor_id = ''stall'',
     c_customer_latitude = - 621 / 100, c_customer_longitude = 10682 / 100,
     c_status = ''pending'', c_created_at = Some 11, c_acknowledged_at = None,
     c_completed_at = None\<rparr>"

definition lapsed_subscription :: subscriptions_row where
  "lapsed_subscription = \<lparr>s_id = ''sub1'', s_vendor_id = ''stall'', s_start_date = 0,
     s_end_date = 30, s_amount = Some 5000, s_status = ''active'',
     s_payment_date = Some 4, s_created_at = Some 4\<rparr>"

definition market :: database where
  "market = \<lparr>profiles = [alice_profile, bob_profile], vendors = [stall],
     subscriptions = [lapsed_subscription], customer_calls = [bob_call, alice_call]\<rparr>"

definition complete_patch :: call_patch where
  "complete_patch = \<lparr>set_status = Some ''completed'', set_acknowledged_at = Some 20,
     set_completed_at = Some 30\<rparr>"

definition completed_call :: customer_calls_row where
  "completed_call = bob_call\<lparr>c_status := ''completed'', c_acknowledged_at := Some 20,
     c_completed_at := Some 30\<rparr>"

definition completed_market :: database where
  "completed_market = market\<lparr>customer_calls := [completed_call, alice_call]\<rparr>"

definition revert_patch :: call_patch where
  "revert_patch = \<lparr>set_status = Some ''pending'', set_acknowledged_at = None,
     set_completed_at = None\<rparr>"

definition acknowledge_patch :: "timestamptz \<Rightarrow> call_patch" where
  "acknowledge_patch now = \<lparr>set_status = Some ''acknowledged'',
     set_acknowledged_at = Some now, set_completed_at = None\<rparr>"

definition alice_dashboard :: dashboard where
  "alice_dashboard = \<lparr>vendor = Some stall,
     calls = [\<lparr>call_row = bob_call, call_profiles = Some (''Bob'', Some ''0812'')\<rparr>],
     subscription = Some \<lparr>status = ''active'', end_date = 30\<rparr>, loading = False,
     locationTracking = True\<rparr>"

definition market_day :: "event list" where
  "market_day =
     [AcknowledgeCall (Authenticated ''alice'') 20 ''call1'',
      CallVendor (Authenticated ''bob'') ''call3'' 21
        (Some \<lparr>lat = - 62 / 10, lng = 1068 / 10\<rparr>) ''stall'',
      AcknowledgeCall (Authenticated ''alice'') 22 ''call1'']"

definition closed_stall :: vendors_row where
  "closed_stall = stall\<lparr>is_active := Some False, current_latitude := None,
     current_longitude := None, last_location_update := None\<rparr>"

definition closed_market :: database where
  "closed_market = market\<lparr>vendors := [closed_stall]\<rparr>"

definition closed_dashboard :: dashboard where
  "closed_dashboard = \<lparr>vendor = Some closed_stall, calls = [],
     subscription = Some \<lparr>status = ''active'', end_date = 30\<rparr>, loading = False,
     locationTracking = False\<rparr>"

definition here :: position where
  "here = \<lparr>latitude = - 621 / 100, longitude = 10682 / 100\<rparr>"

definition rename_patch :: profile_patch where
  "rename_patch = \<lparr>set_full_name = Some ''Mallory'', set_phone = None, set_user_type = None\<rparr>"

definition bare_insert :: subscription_insert where
  "bare_insert = \<lparr>si_vendor_id = ''stall'', si_start_date = 40, si_end_date = 70,
     si_amount = None, si_status = None, si_payment_date = None\<rparr>"

definition new_subscription :: subscriptions_row where
  "new_subscription = \<lparr>s_id = ''sub2'', s_vendor_id = ''stall'', s_start_date = 40,
     s_end_date = 70, s_amount = Some 5000, s_status = ''pending'', s_payment_date = None,
     s_created_at = Some 41\<rparr>"

definition morning_market :: database where
  "morning_market = market\<lparr>customer_calls := [bob_call]\<rparr>"

definition alice_insert :: call_insert where
  "alice_insert = \<lparr>ci_customer_id = ''alice'', ci_vendor_id = ''stall'',
     ci_customer_latitude = - 621 / 100, ci_customer_longitude = 10682 / 100,
     ci_status = Some ''pending''\<rparr>"

definition fresh_dashboard :: dashboard where
  "fresh_dashboard = \<lparr>vendor = None, calls = [], subscription = None, loading = True,
     locationTracking = False\<rparr>"

section \<open>Facts about statements\<close>

lemma update_rows_ok:
  "(\<forall>r \<in> set tbl. hit r \<longrightarrow> chk (new r) \<and> constr (new r)) \<Longrightarrow>
   update_rows hit new chk constr tbl =
     Inr (length (filter hit tbl), map (\<lambda>r. if hit r then new r else r) tbl)"
  by (induction tbl) auto

lemma owned_vendor_ids_iff:
  "vid \<in> set (owned_vendor_ids s (vendors db)) \<longleftrightarrow> owns_vendor s db vid"
  by (cases s) (auto simp: owned_vendor_ids_def owns_vendor_def vendors_select_policy_def)

lemma owns_vendor_authenticated: "owns_vendor s db vid \<Longrightarrow> authenticated s"
  by (cases s) (auto simp: owns_vendor_def)

lemma calls_update_using_iff:
  "calls_update_using s db r \<longleftrightarrow> owns_vendor s db (c_vendor_id r)"
  using owns_vendor_authenticated by (auto simp: calls_update_using_def owned_vendor_ids_iff)

lemma calls_update_check_iff:
  "calls_update_check s db r \<longleftrightarrow> owns_vendor s db (c_vendor_id r)"
  using owns_vendor_authenticated by (auto simp: calls_update_check_def owned_vendor_ids_iff)

lemma calls_select_vendor_iff:
  "calls_select_vendor s db r \<longleftrightarrow> owns_vendor s db (c_vendor_id r)"
  using owns_vendor_authenticated by (auto simp: calls_select_vendor_def owned_vendor_ids_iff)

lemma apply_call_patch_keys [simp]:
  "c_id (apply_call_patch p r) = c_id r"
  "c_vendor_id (apply_call_patch p r) = c_vendor_id r"
  "c_customer_id (apply_call_patch p r) = c_customer_id r"
  "c_created_at (apply_call_patch p r) = c_created_at r"
  by (simp_all add: apply_call_patch_def)

lemma calls_update_permitted_iff:
  "calls_update_permitted s db r (apply_call_patch p r) \<longleftrightarrow> owns_vendor s db (c_vendor_id r)"
  by (auto simp: calls_update_permitted_def calls_update_using_iff calls_update_check_iff
      calls_select_policy_def calls_select_vendor_iff)

lemma update_customer_calls_ok:
  assumes "case set_status p of None \<Rightarrow> \<forall>r \<in> set (customer_calls db). calls_check r
           | Some x \<Rightarrow> x \<in> set [''pending'', ''acknowledged'', ''completed'']"
  shows "update_customer_calls s db wh p =
     Inr (length (filter (\<lambda>r. wh r \<and> owns_vendor s db (c_vendor_id r)) (customer_calls db)),
          map (\<lambda>r. if wh r \<and> owns_vendor s db (c_vendor_id r) then apply_call_patch p r else r)
            (customer_calls db))"
proof -
  have hit: "(wh r \<and> calls_select_policy s db r \<and> calls_update_using s db r)
      = (wh r \<and> owns_vendor s db (c_vendor_id r))" for r
    by (auto simp: calls_select_policy_def calls_select_vendor_iff calls_update_using_iff)
  have ok: "\<forall>r \<in> set (customer_calls db).
      wh r \<and> owns_vendor s db (c_vendor_id r) \<longrightarrow>
        (calls_select_policy s db (apply_call_patch p r) \<and>
         calls_update_check s db (apply_call_patch p r)) \<and> calls_check (apply_call_patch p r)"
    using assms
    by (auto simp: calls_update_check_iff calls_select_policy_def calls_select_vendor_iff
        calls_check_def apply_call_patch_def split: option.splits)
  show ?thesis
    unfolding update_customer_calls_def hit
    by (rule update_rows_ok) (use ok in blast)
qed

lemma acknowledgeCall_db:
  "fst (acknowledgeCall s now k (db, st)) =
     db\<lparr>customer_calls :=
          map (\<lambda>r. if c_id r = k \<and> owns_vendor s db (c_vendor_id r)
                   then r\<lparr>c_status := ''acknowledged'', c_acknowledged_at := Some now\<rparr> else r)
            (customer_calls db)\<rparr>"
  by (simp add: acknowledgeCall_def update_customer_calls_ok call_id_eq_def apply_call_patch_def)

lemma acknowledgeCall_ui:
  "snd (acknowledgeCall s now k (db, st)) =
     st\<lparr>calls := filter (\<lambda>c. c_id (call_row c) \<noteq> k) (calls st)\<rparr>"
  by (simp add: acknowledgeCall_def Let_def)

lemmas market_defs = market_def stall_def bob_call_def alice_call_def alice_profile_def
  bob_profile_def lapsed_subscription_def

lemma alice_owns_stall: "owns_vendor (Authenticated ''alice'') market ''stall''"
  by (simp add: owns_vendor_def market_defs)

lemma bob_owns_nothing: "\<not> owns_vendor (Authenticated ''bob'') market ''stall''"
  by (simp add: owns_vendor_def market_defs)

lemma anon_owns_nothing: "\<not> owns_vendor Anon db vid"
  by (simp add: owns_vendor_def)

section \<open>Who may change the status of a call\<close>

text \<open>
  C1, as stated, fails: the originating customer of a call can author its status
  transition when that customer is also the owner of the vendor called.  Alice, who
  owns \<open>stall\<close>, may insert \<open>call2\<close> with herself as customer; her acknowledgement of it
  passes the update policy and changes the stored row.
\<close>

theorem originating_customer_can_acknowledge:
  "insert_customer_calls (Authenticated ''alice'') ''call2'' 11 morning_market alice_insert
     = Inr (customer_calls market) \<and>
   auth_uid (Authenticated ''alice'') = Some (c_customer_id alice_call) \<and>
   calls_update_permitted (Authenticated ''alice'') market alice_call
     (apply_call_patch (acknowledge_patch 20) alice_call) \<and>
   customer_calls (fst (acknowledgeCall (Authenticated ''alice'') 20 ''call2''
       (market, fresh_dashboard)))
     = [bob_call, alice_call\<lparr>c_status := ''acknowledged'', c_acknowledged_at := Some 20\<rparr>]"
proof -
  have "owns_vendor (Authenticated ''alice'') market (c_vendor_id alice_call)"
    using alice_owns_stall by (simp add: alice_call_def)
  moreover have "customer_calls market = [bob_call, alice_call]"
    by (simp add: market_def)
  moreover have "c_id bob_call \<noteq> ''call2''" "c_id alice_call = ''call2''"
    "c_customer_id alice_call = ''alice''" "c_vendor_id alice_call = ''stall''"
    by (simp_all add: bob_call_def alice_call_def)
  moreover have "insert_customer_calls (Authenticated ''alice'') ''call2'' 11 morning_market
      alice_insert = Inr (customer_calls market)"
    by code_simp
  ultimately show ?thesis
    using alice_owns_stall by (simp add: calls_update_permitted_iff acknowledgeCall_db)
qed

text \<open>
  C1 (amended): for every Call row and every acting identity, an update of the row's
  status (and of its status timestamps) is permitted by the policy layer if and only
  if the acting identity owns the target vendor, that is, the row's vendor_id resolves
  through the vendors table to a user_id equal to the caller.  The originating customer
  of the call cannot author a status transition unless they own the target vendor
  themselves.  Accordingly an update statement that sets a valid status rewrites
  exactly the rows it addresses whose vendor the caller owns.
\<close>

theorem calls_status_update_owner_only:
  "(calls_update_permitted s db r (apply_call_patch p r)
      \<longleftrightarrow> owns_vendor s db (c_vendor_id r)) \<and>
   (auth_uid s = Some (c_customer_id r) \<and> \<not> owns_vendor s db (c_vendor_id r)
      \<longrightarrow> \<not> calls_update_permitted s db r (apply_call_patch p r)) \<and>
   (set_status p = Some x \<and> x \<in> set [''pending'', ''acknowledged'', ''completed'']
      \<longrightarrow> update_customer_calls s db wh p
            = Inr (length (filter (\<lambda>r. wh r \<and> owns_vendor s db (c_vendor_id r))
                             (customer_calls db)),
                   map (\<lambda>r. if wh r \<and> owns_vendor s db (c_vendor_id r)
                            then apply_call_patch p r else r) (customer_calls db)))"
proof -
  have "update_customer_calls s db wh p
      = Inr (length (filter (\<lambda>r. wh r \<and> owns_vendor s db (c_vendor_id r))
                       (customer_calls db)),
             map (\<lambda>r. if wh r \<and> owns_vendor s db (c_vendor_id r)
                      then apply_call_patch p r else r) (customer_calls db))"
    if "set_status p = Some x" and "x \<in> set [''pending'', ''acknowledged'', ''completed'']"
    by (rule update_customer_calls_ok) (use that in simp)
  then show ?thesis
    by (simp only: calls_update_permitted_iff) blast
qed

text \<open>Witness for C1 (amended): Alice may acknowledge Bob's call to her stall; Bob, its
  customer, may not.\<close>

theorem calls_status_update_owner_only_witness:
  "calls_update_permitted (Authenticated ''alice'') market bob_call
     (apply_call_patch (acknowledge_patch 20) bob_call) \<and>
   auth_uid (Authenticated ''bob'') = Some (c_customer_id bob_call) \<and>
   \<not> calls_update_permitted (Authenticated ''bob'') market bob_call
     (apply_call_patch (acknowledge_patch 20) bob_call)"
proof -
  have a: "owns_vendor (Authenticated ''alice'') market (c_vendor_id bob_call)"
    using alice_owns_stall by (simp add: bob_call_def)
  have b: "\<not> owns_vendor (Authenticated ''bob'') market (c_vendor_id bob_call)"
    using bob_owns_nothing by (simp add: bob_call_def)
  have c: "auth_uid (Authenticated ''bob'') = Some (c_customer_id bob_call)"
    by (simp add: bob_call_def)
  from calls_status_update_owner_only
         [of "Authenticated ''alice''" market bob_call "acknowledge_patch 20"]
       calls_status_update_owner_only
         [of "Authenticated ''bob''" market bob_call "acknowledge_patch 20"]
       a b c
  show ?thesis by blast
qed

section \<open>Acknowledging a call\<close>

text \<open>
  C4: when the owning vendor acknowledges a call (a pending one in particular), the
  single update of \<open>acknowledgeCall\<close> stores status \<open>acknowledged\<close> together with a
  non-null acknowledgement timestamp, and changes no other column of the row: the
  created timestamp is what it was.
\<close>

theorem acknowledgeCall_sets_status_and_timestamp:
  assumes "i < length (customer_calls db)"
    and "customer_calls db ! i = r"
    and "c_id r = callId"
    and "owns_vendor s db (c_vendor_id r)"
  shows "customer_calls (fst (acknowledgeCall s now callId (db, st))) ! i =
           r\<lparr>c_status := ''acknowledged'', c_acknowledged_at := Some now\<rparr> \<and>
         c_status (customer_calls (fst (acknowledgeCall s now callId (db, st))) ! i)
           = ''acknowledged'' \<and>
         c_acknowledged_at (customer_calls (fst (acknowledgeCall s now callId (db, st))) ! i)
           \<noteq> None \<and>
         c_created_at (customer_calls (fst (acknowledgeCall s now callId (db, st))) ! i)
           = c_created_at r"
  using assms by (simp add: acknowledgeCall_db)

text \<open>Witness for C4: Alice acknowledges Bob's pending call at time 20.\<close>

theorem acknowledgeCall_sets_status_and_timestamp_witness:
  "c_status bob_call = ''pending'' \<and>
   customer_calls market ! 0 = bob_call \<and>
   owns_vendor (Authenticated ''alice'') market (c_vendor_id bob_call) \<and>
   customer_calls (fst (acknowledgeCall (Authenticated ''alice'') 20 ''call1''
       (market, fresh_dashboard))) ! 0
     = bob_call\<lparr>c_status := ''acknowledged'', c_acknowledged_at := Some 20\<rparr> \<and>
   c_created_at (customer_calls (fst (acknowledgeCall (Authenticated ''alice'') 20 ''call1''
       (market, fresh_dashboard))) ! 0) = Some 10"
proof -
  have h1: "0 < length (customer_calls market)" by (simp add: market_def)
  have h2: "customer_calls market ! 0 = bob_call" by (simp add: market_def)
  have h3: "c_id bob_call = ''call1''" by (simp add: bob_call_def)
  have h4: "owns_vendor (Authenticated ''alice'') market (c_vendor_id bob_call)"
    using alice_owns_stall by (simp add: bob_call_def)
  have h5: "c_status bob_call = ''pending''" "c_created_at bob_call = Some 10"
    by (simp_all add: bob_call_def)
  from acknowledgeCall_sets_status_and_timestamp [OF h1 h2 h3 h4, of 20 fresh_dashboard]
    h2 h4 h5
  show ?thesis by simp
qed

text \<open>
  C10: \<open>acknowledgeCall\<close> removes the call from the locally displayed list whatever the
  update did: the new list is the old one without the entries of that id, for every
  session, database and dashboard.  When the session owns the vendor of no stored row
  of that id, the update changes nothing, so the stored row keeps its status (pending,
  if it was) while the call is gone from the list.
\<close>

theorem acknowledgeCall_drops_call_unconditionally:
  "calls (snd (acknowledgeCall s now callId (db, st)))
     = filter (\<lambda>c. c_id (call_row c) \<noteq> callId) (calls st) \<and>
   (\<forall>c \<in> set (calls (snd (acknowledgeCall s now callId (db, st)))).
      c_id (call_row c) \<noteq> callId) \<and>
   ((\<forall>r \<in> set (customer_calls db). c_id r = callId \<longrightarrow> \<not> owns_vendor s db (c_vendor_id r))
      \<longrightarrow> fst (acknowledgeCall s now callId (db, st)) = db)"
proof -
  have "(\<forall>r \<in> set (customer_calls db). c_id r = callId \<longrightarrow> \<not> owns_vendor s db (c_vendor_id r))
      \<Longrightarrow> map (\<lambda>r. if c_id r = callId \<and> owns_vendor s db (c_vendor_id r)
                   then r\<lparr>c_status := ''acknowledged'', c_acknowledged_at := Some now\<rparr> else r)
            (customer_calls db) = customer_calls db"
    by (intro map_idI) auto
  then show ?thesis
    by (auto simp: acknowledgeCall_db acknowledgeCall_ui)
qed

text \<open>Witness for C10: the session has expired (no principal); Bob's call stays pending
  in the database and is gone from Alice's screen.\<close>

theorem acknowledgeCall_drops_call_unconditionally_witness:
  "calls (snd (acknowledgeCall Anon 20 ''call1'' (market, alice_dashboard))) = [] \<and>
   fst (acknowledgeCall Anon 20 ''call1'' (market, alice_dashboard)) = market \<and>
   c_id (customer_calls market ! 0) = ''call1'' \<and>
   c_status (customer_calls market ! 0) = ''pending''"
proof -
  have h: "\<forall>r \<in> set (customer_calls market).
      c_id r = ''call1'' \<longrightarrow> \<not> owns_vendor Anon market (c_vendor_id r)"
    by (simp add: anon_owns_nothing)
  have f: "filter (\<lambda>c. c_id (call_row c) \<noteq> ''call1'') (calls alice_dashboard) = []"
    by (simp add: alice_dashboard_def bob_call_def)
  have r: "c_id (customer_calls market ! 0) = ''call1''"
    "c_status (customer_calls market ! 0) = ''pending''"
    by (simp_all add: market_def bob_call_def)
  from acknowledgeCall_drops_call_unconditionally
         [of Anon 20 "''call1''" market alice_dashboard] h f r
  show ?thesis by simp
qed

section \<open>The lifecycle of a call\<close>

lemmas more_market_defs = market_defs completed_market_def completed_call_def closed_market_def
  closed_stall_def

lemma calls_advance_refl: "calls_advance cs cs"
  by (simp add: calls_advance_def)

lemma calls_advance_trans:
  "calls_advance a b \<Longrightarrow> calls_advance b c \<Longrightarrow> calls_advance a c"
  unfolding calls_advance_def
  by (metis (no_types, lifting) le_trans less_le_trans)

lemma commit_vendors_calls [simp]: "customer_calls (commit_vendors db res) = customer_calls db"
  by (simp add: commit_vendors_def split: sum.splits)

lemma toggle_calls:
  "customer_calls (fst (toggleLocationTracking s tc ts geo (db, st))) = customer_calls db"
  by (simp add: toggleLocationTracking_def split: option.splits)

lemma watch_calls:
  "customer_calls (fst (startLocationUpdates_callback s tc ts pos (db, st))) = customer_calls db"
  by (simp add: startLocationUpdates_callback_def split: option.splits)

lemma setup_calls:
  "customer_calls (fst (vendorSetup_handleSubmit s n ts bn bt d (db, st))) = customer_calls db"
  by (simp add: vendorSetup_handleSubmit_def split: sum.splits)

lemma payment_calls:
  "customer_calls (fst (handlePayment s n tc ts t1 t2 vid db)) = customer_calls db"
  by (simp add: handlePayment_def split: sum.splits)

lemma callVendor_calls:
  "customer_calls (fst (callVendor s n ts loc vid db)) = customer_calls db \<or>
   (\<exists>r. c_status r = ''pending'' \<and> customer_calls (fst (callVendor s n ts loc vid db)) = customer_calls db @ [r])"
  by (auto simp: callVendor_def insert_customer_calls_def call_defaults_def Let_def
      split: option.splits sum.splits if_splits)

lemma append_advance: "calls_advance cs (cs @ [r])"
  by (simp add: calls_advance_def nth_append)

lemma ack_advance:
  assumes "lifecycle_open cs"
  shows "calls_advance cs (map (\<lambda>r. if P r then r\<lparr>c_status := ''acknowledged'', c_acknowledged_at := Some now\<rparr> else r) cs)"
    and "lifecycle_open (map (\<lambda>r. if P r then r\<lparr>c_status := ''acknowledged'', c_acknowledged_at := Some now\<rparr> else r) cs)"
  using assms by (auto simp: calls_advance_def lifecycle_open_def status_rank_def)

lemma step_calls:
  assumes "lifecycle_open (customer_calls db)"
  shows "calls_advance (customer_calls db) (customer_calls (fst (step e (db, st)))) \<and>
         lifecycle_open (customer_calls (fst (step e (db, st))))"
proof (cases e)
  case (AcknowledgeCall s tc k)
  then show ?thesis using assms by (simp add: acknowledgeCall_db ack_advance)
next
  case (CallVendor s n ts loc vid)
  then show ?thesis
    using assms callVendor_calls [of s n ts loc vid db]
    by (auto simp: calls_advance_refl append_advance lifecycle_open_def)
qed (use assms in \<open>simp_all add: calls_advance_refl toggle_calls watch_calls setup_calls payment_calls\<close>)

text \<open>
  C3, as stated, fails: nothing in the schema orders the three status values.  The
  owning vendor's update from \<open>completed\<close> back to \<open>pending\<close> passes the policy and the
  \<open>CHECK\<close> constraint, and \<open>acknowledgeCall\<close>, whose filter is the id alone, moves a
  completed call back to \<open>acknowledged\<close>.
\<close>

theorem owner_can_revert_status:
  "update_customer_calls (Authenticated ''alice'') market (call_id_eq ''call1'') complete_patch
     = Inr (1, customer_calls completed_market) \<and>
   c_status (customer_calls completed_market ! 0) = ''completed'' \<and>
   update_customer_calls (Authenticated ''alice'') completed_market (call_id_eq ''call1'')
       revert_patch
     = Inr (1, [completed_call\<lparr>c_status := ''pending''\<rparr>, alice_call]) \<and>
   customer_calls (fst (acknowledgeCall (Authenticated ''alice'') 40 ''call1''
       (completed_market, alice_dashboard)))
     = [completed_call\<lparr>c_status := ''acknowledged'', c_acknowledged_at := Some 40\<rparr>, alice_call] \<and>
   status_rank ''pending'' < status_rank ''completed'' \<and>
   status_rank ''acknowledged'' < status_rank ''completed''"
proof -
  have o: "owns_vendor (Authenticated ''alice'') completed_market ''stall''"
    by (simp add: owns_vendor_def more_market_defs)
  have ids: "c_id bob_call = ''call1''" "c_id alice_call = ''call2''"
    "c_id completed_call = ''call1''"
    "c_vendor_id bob_call = ''stall''" "c_vendor_id alice_call = ''stall''"
    "c_vendor_id completed_call = ''stall''"
    by (simp_all add: bob_call_def alice_call_def completed_call_def)
  have t: "customer_calls market = [bob_call, alice_call]"
    "customer_calls completed_market = [completed_call, alice_call]"
    by (simp_all add: market_def completed_market_def)
  have 1: "update_customer_calls (Authenticated ''alice'') market (call_id_eq ''call1'')
      complete_patch = Inr (1, customer_calls completed_market)"
    using alice_owns_stall
    by (simp add: update_customer_calls_ok complete_patch_def t ids call_id_eq_def
        apply_call_patch_def completed_call_def)
  have 2: "update_customer_calls (Authenticated ''alice'') completed_market
      (call_id_eq ''call1'') revert_patch
      = Inr (1, [completed_call\<lparr>c_status := ''pending''\<rparr>, alice_call])"
    using o
    by (simp add: update_customer_calls_ok revert_patch_def t ids call_id_eq_def
        apply_call_patch_def)
  have 3: "customer_calls (fst (acknowledgeCall (Authenticated ''alice'') 40 ''call1''
       (completed_market, alice_dashboard)))
     = [completed_call\<lparr>c_status := ''acknowledged'', c_acknowledged_at := Some 40\<rparr>, alice_call]"
    using o by (simp add: acknowledgeCall_db t ids)
  have 4: "c_status (customer_calls completed_market ! 0) = ''completed''"
    by (simp add: t completed_call_def)
  show ?thesis using 1 2 3 4 by (simp add: status_rank_def)
qed

text \<open>
  C3 (amended): for every Call row, over any sequence of the application's own
  operations (loading, toggling, position updates, acknowledging, vendor setup,
  payment, calling a vendor) on a table in which no row is completed, the row stays in
  place under its id and its status never moves from a later value back to an earlier
  one; no row becomes completed, so the statuses observed are a subsequence of
  pending, acknowledged.  The schema itself does not forbid a reverse transition.
\<close>

theorem app_never_reverts_status:
  assumes "lifecycle_open (customer_calls (fst w))"
  shows "calls_advance (customer_calls (fst w)) (customer_calls (fst (run es w))) \<and>
         lifecycle_open (customer_calls (fst (run es w)))"
  using assms
proof (induction es arbitrary: w)
  case Nil
  then show ?case by (simp add: calls_advance_refl)
next
  case (Cons e es)
  obtain db st where w: "w = (db, st)" by (cases w)
  from Cons.prems w have 1: "calls_advance (customer_calls db) (customer_calls (fst (step e (db, st))))"
    and 2: "lifecycle_open (customer_calls (fst (step e (db, st))))"
    using step_calls by auto
  from Cons.IH [OF 2] 1 show ?case
    by (auto simp: w intro: calls_advance_trans)
qed

text \<open>Witness for C3 (amended): Alice acknowledges Bob's call, Bob calls again, Alice
  acknowledges the first call once more.\<close>

theorem app_never_reverts_status_witness:
  "lifecycle_open (customer_calls market) \<and>
   calls_advance (customer_calls market)
     (customer_calls (fst (run market_day (market, alice_dashboard)))) \<and>
   map c_status (customer_calls (fst (run market_day (market, alice_dashboard))))
     = [''acknowledged'', ''pending'', ''pending'']"
proof -
  have h: "lifecycle_open (customer_calls (fst (market, alice_dashboard)))"
    by code_simp
  have r: "map c_status (customer_calls (fst (run market_day (market, alice_dashboard))))
      = [''acknowledged'', ''pending'', ''pending'']"
    by code_simp
  from app_never_reverts_status [OF h, of market_day] h r show ?thesis by simp
qed

section \<open>Availability and coordinates\<close>

lemma update_vendors_ok:
  "update_vendors s now db wh p =
     Inr (length (filter (\<lambda>v. wh v \<and> auth_uid s = Some (v_user_id v)) (vendors db)),
          map (\<lambda>v. if wh v \<and> auth_uid s = Some (v_user_id v)
                   then update_vendors_updated_at now (apply_vendor_patch p v) else v)
            (vendors db))"
proof -
  have hit: "(wh v \<and> vendors_select_policy s v \<and> vendors_update_using s v)
      = (wh v \<and> auth_uid s = Some (v_user_id v))" for v
    by (cases s) (auto simp: vendors_select_policy_def vendors_update_using_def)
  have ok: "\<forall>v \<in> set (vendors db). wh v \<and> auth_uid s = Some (v_user_id v) \<longrightarrow>
      (vendors_select_policy s (update_vendors_updated_at now (apply_vendor_patch p v)) \<and>
       vendors_update_check s (update_vendors_updated_at now (apply_vendor_patch p v))) \<and> True"
    by (cases s)
      (auto simp: vendors_update_check_def vendors_select_policy_def
        update_vendors_updated_at_def apply_vendor_patch_def)
  show ?thesis
    unfolding update_vendors_def hit
    by (rule update_rows_ok) (use ok in blast)
qed

lemma commit_update_vendors:
  "vendors (commit_vendors db (update_vendors s now db wh p)) =
     map (\<lambda>v. if wh v \<and> auth_uid s = Some (v_user_id v)
              then update_vendors_updated_at now (apply_vendor_patch p v) else v) (vendors db)"
  by (simp add: update_vendors_ok commit_vendors_def)

lemma toggle_vendors:
  "vendors (fst (toggleLocationTracking s tc ts geo (db, st))) =
     (case vendor st of
        None \<Rightarrow> vendors db
      | Some v \<Rightarrow>
          if \<not> locationTracking st then
            (case geo of
               None \<Rightarrow> vendors db
             | Some pos \<Rightarrow>
                 map (\<lambda>r. if v_id r = v_id v \<and> auth_uid s = Some (v_user_id r)
                          then r\<lparr>is_active := Some True,
                                 current_latitude := Some (latitude pos),
                                 current_longitude := Some (longitude pos),
                                 last_location_update := Some tc,
                                 v_updated_at := Some ts\<rparr>
                          else r) (vendors db))
          else map (\<lambda>r. if v_id r = v_id v \<and> auth_uid s = Some (v_user_id r)
                        then r\<lparr>is_active := Some False, v_updated_at := Some ts\<rparr>
                        else r) (vendors db))"
  by (simp add: toggleLocationTracking_def commit_update_vendors vendor_id_eq_def
      update_vendors_updated_at_def apply_vendor_patch_def split: option.splits)

lemma watch_vendors:
  "vendors (fst (startLocationUpdates_callback s tc ts pos (db, st))) =
     (case vendor st of
        None \<Rightarrow> vendors db
      | Some v \<Rightarrow>
          map (\<lambda>r. if v_id r = v_id v \<and> auth_uid s = Some (v_user_id r)
                   then r\<lparr>current_latitude := Some (latitude pos),
                          current_longitude := Some (longitude pos),
                          last_location_update := Some tc,
                          v_updated_at := Some ts\<rparr>
                   else r) (vendors db))"
  by (simp add: startLocationUpdates_callback_def commit_update_vendors vendor_id_eq_def
      update_vendors_updated_at_def apply_vendor_patch_def split: option.splits)

lemma setup_vendors:
  "vendors (fst (vendorSetup_handleSubmit s n ts bn bt d (db, st))) = vendors db \<or>
   (\<exists>r. is_active r = Some False \<and>
        vendors (fst (vendorSetup_handleSubmit s n ts bn bt d (db, st))) = vendors db @ [r])"
  by (auto simp: vendorSetup_handleSubmit_def insert_vendors_def Let_def
      split: sum.splits if_splits)

lemma payment_vendors: "vendors (fst (handlePayment s n tc ts t1 t2 vid db)) = vendors db"
  by (simp add: handlePayment_def split: sum.splits)

lemma callVendor_vendors: "vendors (fst (callVendor s n ts loc vid db)) = vendors db"
  by (simp add: callVendor_def split: option.splits sum.splits)

lemma acknowledge_vendors: "vendors (fst (acknowledgeCall s now k (db, st))) = vendors db"
  by (simp add: acknowledgeCall_db)

text \<open>
  C6: whatever handler runs, a vendor row that is active afterwards either was active
  before and was not rewritten by the toggle handler, or was written by the toggle
  handler's activation with a position at hand, and then the same update stored that
  position's latitude and longitude and a location timestamp.  A row inserted by the
  setup form is inactive.  So no code path sets the flag true without writing both
  coordinates in the same statement.
\<close>

theorem activation_writes_coordinates:
  assumes "i < length (vendors (fst (step e (db, st))))"
    and "is_active (vendors (fst (step e (db, st))) ! i) = Some True"
  shows "(i < length (vendors db) \<and> is_active (vendors db ! i) = Some True \<and>
            (is_toggle e \<longrightarrow> vendors (fst (step e (db, st))) ! i = vendors db ! i)) \<or>
         (\<exists>s tc ts pos. e = ToggleLocationTracking s tc ts (Some pos) \<and>
            current_latitude (vendors (fst (step e (db, st))) ! i) = Some (latitude pos) \<and>
            current_longitude (vendors (fst (step e (db, st))) ! i) = Some (longitude pos) \<and>
            last_location_update (vendors (fst (step e (db, st))) ! i) = Some tc)"
proof (cases e)
  case (LoadVendorData s)
  with assms show ?thesis by simp
next
  case (ToggleLocationTracking s tc ts geo)
  with assms show ?thesis
    by (auto simp: toggle_vendors split: option.splits if_splits)
next
  case (WatchPosition s tc ts pos)
  with assms show ?thesis
    by (auto simp: watch_vendors split: option.splits if_splits)
next
  case (AcknowledgeCall s tc k)
  with assms show ?thesis by (simp add: acknowledge_vendors)
next
  case (VendorSetup s n ts bn bt d)
  with assms setup_vendors [of s n ts bn bt d db st] show ?thesis
    by (auto simp: nth_append split: if_splits)
next
  case (HandlePayment s n tc ts t1 t2 vid)
  with assms show ?thesis by (simp add: payment_vendors)
next
  case (CallVendor s n ts loc vid)
  with assms show ?thesis by (simp add: callVendor_vendors)
qed

text \<open>Witness for C6: Alice opens her closed stall at position \<open>here\<close>.\<close>

theorem activation_writes_coordinates_witness:
  "is_active (vendors closed_market ! 0) = Some False \<and>
   current_latitude (vendors closed_market ! 0) = None \<and>
   is_active (vendors (fst (step (ToggleLocationTracking (Authenticated ''alice'') 50 51
      (Some here)) (closed_market, closed_dashboard))) ! 0) = Some True \<and>
   current_latitude (vendors (fst (step (ToggleLocationTracking (Authenticated ''alice'') 50 51
      (Some here)) (closed_market, closed_dashboard))) ! 0) = Some (latitude here) \<and>
   current_longitude (vendors (fst (step (ToggleLocationTracking (Authenticated ''alice'') 50 51
      (Some here)) (closed_market, closed_dashboard))) ! 0) = Some (longitude here) \<and>
   last_location_update (vendors (fst (step (ToggleLocationTracking (Authenticated ''alice'')
      50 51 (Some here)) (closed_market, closed_dashboard))) ! 0) = Some 50"
proof -
  let ?e = "ToggleLocationTracking (Authenticated ''alice'') 50 51 (Some here)"
  have h1: "0 < length (vendors (fst (step ?e (closed_market, closed_dashboard))))"
    by code_simp
  have h2: "is_active (vendors (fst (step ?e (closed_market, closed_dashboard))) ! 0)
      = Some True"
    by code_simp
  have b: "is_active (vendors closed_market ! 0) = Some False"
    "current_latitude (vendors closed_market ! 0) = None"
    by (simp_all add: more_market_defs)
  from activation_writes_coordinates [OF h1 h2] b h2 show ?thesis by auto
qed

text \<open>
  C8: when a vendor deactivates (the dashboard holds their vendor row and shows
  tracking on), the update stores \<open>is_active = false\<close> on their row and changes nothing
  else but \<open>updated_at\<close>: current latitude, current longitude and the last-location
  timestamp are what they were.
\<close>

theorem deactivation_keeps_coordinates:
  assumes "vendor st = Some v" and "locationTracking st"
    and "i < length (vendors db)" and "vendors db ! i = r"
    and "v_id r = v_id v" and "auth_uid s = Some (v_user_id r)"
  shows "vendors (fst (toggleLocationTracking s tc ts geo (db, st))) ! i
           = r\<lparr>is_active := Some False, v_updated_at := Some ts\<rparr> \<and>
         is_active (vendors (fst (toggleLocationTracking s tc ts geo (db, st))) ! i) = Some False \<and>
         current_latitude (vendors (fst (toggleLocationTracking s tc ts geo (db, st))) ! i)
           = current_latitude r \<and>
         current_longitude (vendors (fst (toggleLocationTracking s tc ts geo (db, st))) ! i)
           = current_longitude r \<and>
         last_location_update (vendors (fst (toggleLocationTracking s tc ts geo (db, st))) ! i)
           = last_location_update r"
  using assms by (simp add: toggle_vendors)

text \<open>Witness for C8: Alice closes her stall; its coordinates stay.\<close>

theorem deactivation_keeps_coordinates_witness:
  "vendors (fst (toggleLocationTracking (Authenticated ''alice'') 60 61 None
      (market, alice_dashboard))) ! 0 = stall\<lparr>is_active := Some False, v_updated_at := Some 61\<rparr> \<and>
   current_latitude (vendors (fst (toggleLocationTracking (Authenticated ''alice'') 60 61 None
      (market, alice_dashboard))) ! 0) = Some (- 621 / 100) \<and>
   current_longitude (vendors (fst (toggleLocationTracking (Authenticated ''alice'') 60 61 None
      (market, alice_dashboard))) ! 0) = Some (10682 / 100) \<and>
   last_location_update (vendors (fst (toggleLocationTracking (Authenticated ''alice'') 60 61
      None (market, alice_dashboard))) ! 0) = Some 5"
proof -
  have h1: "vendor alice_dashboard = Some stall" "locationTracking alice_dashboard"
    by (simp_all add: alice_dashboard_def)
  have h2: "0 < length (vendors market)" "vendors market ! 0 = stall"
    by (simp_all add: market_def)
  have h3: "v_id stall = v_id stall" "auth_uid (Authenticated ''alice'') = Some (v_user_id stall)"
    by (simp_all add: stall_def)
  have c: "current_latitude stall = Some (- 621 / 100)"
    "current_longitude stall = Some (10682 / 100)" "last_location_update stall = Some 5"
    by (simp_all add: stall_def)
  from deactivation_keeps_coordinates [OF h1 h2 h3, of 60 61 None] c
  show ?thesis by simp
qed

section \<open>Profiles\<close>

lemma update_rows_no_hit:
  "(\<forall>r \<in> set tbl. \<not> hit r) \<Longrightarrow> update_rows hit new chk constr tbl = Inr (0, tbl)"
  by (induction tbl) auto

lemma profiles_update_permitted_iff:
  "profiles_update_permitted s r (update_profiles_updated_at now (apply_profile_patch p r))
     \<longleftrightarrow> auth_uid s = Some (p_id r)"
  by (cases s)
    (auto simp: profiles_update_permitted_def profiles_select_policy_def
      profiles_update_using_def profiles_update_check_def update_profiles_updated_at_def
      apply_profile_patch_def)

lemma update_profiles_other:
  assumes "auth_uid s \<noteq> Some target"
  shows "update_profiles s now db (profile_id_eq target) p = Inr (0, profiles db)"
  unfolding update_profiles_def
  by (rule update_rows_no_hit) (use assms in \<open>auto simp: profile_id_eq_def profiles_update_using_def\<close>)

lemma update_profiles_own:
  assumes "case set_user_type p of None \<Rightarrow> \<forall>r \<in> set (profiles db). profiles_check r
           | Some x \<Rightarrow> x \<in> set [''vendor'', ''customer'']"
  shows "update_profiles (Authenticated uid) now db (profile_id_eq uid) p =
     Inr (length (filter (\<lambda>r. p_id r = uid) (profiles db)),
          map (\<lambda>r. if p_id r = uid
                   then update_profiles_updated_at now (apply_profile_patch p r) else r)
            (profiles db))"
proof -
  have hit: "(profile_id_eq uid r \<and> profiles_select_policy (Authenticated uid) r \<and>
      profiles_update_using (Authenticated uid) r) = (p_id r = uid)" for r
    by (auto simp: profile_id_eq_def profiles_select_policy_def profiles_update_using_def)
  have ok: "\<forall>r \<in> set (profiles db). p_id r = uid \<longrightarrow>
      (profiles_select_policy (Authenticated uid)
         (update_profiles_updated_at now (apply_profile_patch p r)) \<and>
       profiles_update_check (Authenticated uid)
         (update_profiles_updated_at now (apply_profile_patch p r))) \<and>
      profiles_check (update_profiles_updated_at now (apply_profile_patch p r))"
    using assms
    by (auto simp: profiles_update_check_def profiles_select_policy_def profiles_check_def
        update_profiles_updated_at_def apply_profile_patch_def split: option.splits)
  show ?thesis
    unfolding update_profiles_def hit
    by (rule update_rows_ok) (use ok in blast)
qed

text \<open>
  C2: for every Identity row and every authenticated session, an update of the row is
  permitted by the policy layer if and only if the row's id is the session's own
  identity; an update addressed to any other id changes zero rows and leaves the
  table as it was, while one addressed to the session's own id (with a valid
  \<open>user_type\<close>) rewrites exactly the rows of that id; and a read by an authenticated
  caller returns every row.
\<close>

theorem profiles_update_own_row_only:
  "(profiles_update_permitted (Authenticated uid) r
      (update_profiles_updated_at now (apply_profile_patch p r)) \<longleftrightarrow> p_id r = uid) \<and>
   (target \<noteq> uid \<longrightarrow>
      update_profiles (Authenticated uid) now db (profile_id_eq target) p
        = Inr (0, profiles db)) \<and>
   ((case set_user_type p of None \<Rightarrow> \<forall>r \<in> set (profiles db). profiles_check r
     | Some x \<Rightarrow> x \<in> set [''vendor'', ''customer'']) \<longrightarrow>
      update_profiles (Authenticated uid) now db (profile_id_eq uid) p
        = Inr (length (filter (\<lambda>r. p_id r = uid) (profiles db)),
               map (\<lambda>r. if p_id r = uid
                        then update_profiles_updated_at now (apply_profile_patch p r) else r)
                 (profiles db))) \<and>
   select_profiles (Authenticated uid) db = profiles db"
proof -
  have "select_profiles (Authenticated uid) db = profiles db"
    by (simp add: select_profiles_def profiles_select_policy_def)
  moreover have "target \<noteq> uid \<Longrightarrow>
      update_profiles (Authenticated uid) now db (profile_id_eq target) p = Inr (0, profiles db)"
    by (rule update_profiles_other) simp
  ultimately show ?thesis
    using update_profiles_own [where p = p and db = db and uid = uid and now = now]
    by (simp add: profiles_update_permitted_iff eq_commute)
qed

text \<open>Witness for C2: Bob cannot rename Alice, can rename himself, and reads both rows.\<close>

theorem profiles_update_own_row_only_witness:
  "update_profiles (Authenticated ''bob'') 9 market (profile_id_eq ''alice'') rename_patch
     = Inr (0, [alice_profile, bob_profile]) \<and>
   update_profiles (Authenticated ''bob'') 9 market (profile_id_eq ''bob'') rename_patch
     = Inr (1, [alice_profile, bob_profile\<lparr>full_name := ''Mallory'', p_updated_at := Some 9\<rparr>]) \<and>
   select_profiles (Authenticated ''bob'') market = [alice_profile, bob_profile]"
proof -
  have n: "''alice'' \<noteq> ''bob''" by simp
  have t: "profiles market = [alice_profile, bob_profile]" by (simp add: market_def)
  have c: "case set_user_type rename_patch of
             None \<Rightarrow> \<forall>r \<in> set (profiles market). profiles_check r
           | Some x \<Rightarrow> x \<in> set [''vendor'', ''customer'']"
    by (simp add: rename_patch_def market_defs profiles_check_def)
  have m: "map (\<lambda>r. if p_id r = ''bob''
                     then update_profiles_updated_at 9 (apply_profile_patch rename_patch r)
                     else r) [alice_profile, bob_profile]
      = [alice_profile, bob_profile\<lparr>full_name := ''Mallory'', p_updated_at := Some 9\<rparr>]"
    "length (filter (\<lambda>r. p_id r = ''bob'') [alice_profile, bob_profile]) = 1"
    by (simp_all add: alice_profile_def bob_profile_def rename_patch_def
        update_profiles_updated_at_def apply_profile_patch_def)
  from profiles_update_own_row_only [of "''bob''" alice_profile 9 rename_patch "''alice''" market]
    n t c m
  show ?thesis by simp
qed

section \<open>The subscription gate of the toggle\<close>

lemma maybeSingle_take1: "maybeSingle (take 1 xs) = (case xs of [] \<Rightarrow> None | x # _ \<Rightarrow> Some x)"
  by (cases xs) auto

lemma subscription_query_owner:
  assumes "owns_vendor s db vid"
  shows "(subscription_query s db vid = None \<longleftrightarrow> \<not> has_active_subscription db vid) \<and>
         (\<forall>sub. subscription_query s db vid = Some sub \<longrightarrow> status sub = ''active'')"
proof -
  let ?rows = "filter (\<lambda>r. s_vendor_id r = vid \<and> s_status r = ''active'')
                 (select_subscriptions s db)"
  let ?sorted = "sort_key (\<lambda>r. - s_end_date r) ?rows"
  have vis: "set ?rows = {r \<in> set (subscriptions db). s_vendor_id r = vid \<and> s_status r = ''active''}"
    using assms owns_vendor_authenticated [OF assms]
    by (auto simp: select_subscriptions_def subscriptions_select_policy_def owned_vendor_ids_iff)
  have s: "set ?sorted = set ?rows" by simp
  have "length ?sorted = length ?rows" by simp
  then have "(?sorted = []) \<longleftrightarrow> (?rows = [])" by (simp only: length_0_conv [symmetric])
  also have "\<dots> \<longleftrightarrow> set ?rows = {}" by (simp only: set_empty)
  also have "\<dots> \<longleftrightarrow> \<not> has_active_subscription db vid"
    unfolding vis has_active_subscription_def by blast
  finally have e: "(?sorted = []) \<longleftrightarrow> \<not> has_active_subscription db vid" .
  have a: "s_status x = ''active''" if "?sorted = x # xs" for x xs
  proof -
    from that have "x \<in> set ?sorted" by (simp only: list.set_intros)
    with s vis show ?thesis by blast
  qed
  show ?thesis
  proof (cases ?sorted)
    case Nil
    have "subscription_query s db vid = None"
      by (simp only: subscription_query_def Nil maybeSingle_take1 list.case option.map)
    with e Nil show ?thesis by (simp only: simp_thms) simp
  next
    case (Cons x xs)
    have "subscription_query s db vid = Some \<lparr>status = s_status x, end_date = s_end_date x\<rparr>"
      by (simp only: subscription_query_def Cons maybeSingle_take1 list.case option.map)
    moreover have "?sorted \<noteq> []" by (simp only: Cons list.distinct simp_thms)
    moreover note a [OF Cons]
    ultimately show ?thesis using e by simp
  qed
qed

lemma loadVendorData_owner:
  assumes "filter (\<lambda>v. v_user_id v = uid) (vendors db) = [v]"
  shows "loadVendorData (Authenticated uid) db st =
     st\<lparr>vendor := Some v, locationTracking := (is_active v = Some True),
        calls := pending_calls_query (Authenticated uid) db (v_id v),
        subscription := subscription_query (Authenticated uid) db (v_id v),
        loading := False\<rparr>"
  using assms
  by (simp add: loadVendorData_def select_vendors_def vendors_select_policy_def)

text \<open>
  C5, as stated, fails: the dashboard never compares \<open>end_date\<close> with the current date.
  Alice's only subscription ended on day 30; on day 45 she has no covering subscription,
  and the toggle is rendered enabled.
\<close>

theorem lapsed_subscription_keeps_toggle:
  "\<not> covering_subscription market ''stall'' 45 \<and>
   render (loadVendorData (Authenticated ''alice'') market fresh_dashboard) = DashboardScreen False"
  by code_simp

text \<open>
  C5 (amended): for every vendor session (the caller has exactly one vendor row), the
  dashboard rendered after loading withholds the toggle (renders it disabled) exactly
  when the vendor has no subscription row whose status is active; the end date is not
  consulted.  In particular the toggle is offered whenever a covering subscription
  exists.
\<close>

theorem toggle_withheld_iff_no_active_subscription:
  assumes "filter (\<lambda>v. v_user_id v = uid) (vendors db) = [v]"
  shows "render (loadVendorData (Authenticated uid) db st)
           = DashboardScreen (\<not> has_active_subscription db (v_id v)) \<and>
         (covering_subscription db (v_id v) today \<longrightarrow>
            render (loadVendorData (Authenticated uid) db st) = DashboardScreen False)"
proof -
  have "v \<in> set (filter (\<lambda>v. v_user_id v = uid) (vendors db))" using assms by simp
  then have o: "owns_vendor (Authenticated uid) db (v_id v)"
    by (auto simp: owns_vendor_def)
  have c: "covering_subscription db (v_id v) today \<Longrightarrow> has_active_subscription db (v_id v)"
    by (auto simp: covering_subscription_def has_active_subscription_def)
  from subscription_query_owner [OF o] c show ?thesis
    by (auto simp: loadVendorData_owner [OF assms] render_def isSubscriptionExpired_def
        split: option.splits)
qed

text \<open>Witness for C5 (amended): Alice with her subscription row, and without any.\<close>

theorem toggle_withheld_iff_no_active_subscription_witness:
  "filter (\<lambda>v. v_user_id v = ''alice'') (vendors market) = [stall] \<and>
   has_active_subscription market (v_id stall) \<and>
   render (loadVendorData (Authenticated ''alice'') market fresh_dashboard) = DashboardScreen False \<and>
   \<not> has_active_subscription (market\<lparr>subscriptions := []\<rparr>) (v_id stall) \<and>
   render (loadVendorData (Authenticated ''alice'') (market\<lparr>subscriptions := []\<rparr>) fresh_dashboard)
     = DashboardScreen True"
proof -
  have h: "filter (\<lambda>v. v_user_id v = ''alice'') (vendors market) = [stall]"
    by (simp add: market_def stall_def)
  have h': "filter (\<lambda>v. v_user_id v = ''alice'') (vendors (market\<lparr>subscriptions := []\<rparr>)) = [stall]"
    by (simp add: market_def stall_def)
  have a: "has_active_subscription market (v_id stall)"
    "\<not> has_active_subscription (market\<lparr>subscriptions := []\<rparr>) (v_id stall)"
    by (simp_all add: has_active_subscription_def market_defs)
  from toggle_withheld_iff_no_active_subscription [OF h, of fresh_dashboard 0]
       toggle_withheld_iff_no_active_subscription [OF h', of fresh_dashboard 0] h a
  show ?thesis by simp
qed

section \<open>Defaults of a subscription\<close>

lemma insert_subscriptions_Inr:
  assumes "insert_subscriptions s new_id now db p = Inr t"
  shows "t = subscriptions db @ [subscription_defaults new_id now p]"
    and "subscriptions_check (subscription_defaults new_id now p)"
  using assms by (auto simp: insert_subscriptions_def Let_def split: if_splits)

lemma insert_subscriptions_bad_status:
  assumes "si_status p = Some x" and "x \<notin> set [''active'', ''expired'', ''pending'']"
  shows "insert_subscriptions s new_id now db p =
           (if subscriptions_insert_check s db (subscription_defaults new_id now p)
            then Inl CheckViolation else Inl RlsViolation)"
  using assms
  by (simp add: insert_subscriptions_def Let_def subscriptions_check_def subscription_defaults_def)

lemma handlePayment_row:
  assumes "snd (handlePayment s new_id tc ts today later vid db)"
  shows "s_status (last (subscriptions (fst (handlePayment s new_id tc ts today later vid db))))
           = ''active'' \<and>
         s_amount (last (subscriptions (fst (handlePayment s new_id tc ts today later vid db))))
           = Some 5000"
  using assms
  by (auto simp: handlePayment_def insert_subscriptions_def subscription_defaults_def Let_def
      split: sum.splits if_splits)

text \<open>
  C7: when an insert into subscriptions succeeds, the table gains exactly one row; if
  the amount was omitted the stored amount is 5000; the stored status is \<open>pending\<close> if
  the status was omitted and otherwise the status the insert set (the payment handler
  sets \<open>active\<close> and 5000); and an insert whose status is outside active, expired,
  pending is rejected, by the \<open>CHECK\<close> constraint when the caller owns the vendor.
\<close>

theorem subscription_insert_defaults:
  "(insert_subscriptions s new_id now db p = Inr t \<longrightarrow>
      butlast t = subscriptions db \<and> t \<noteq> [] \<and>
      (si_amount p = None \<longrightarrow> s_amount (last t) = Some 5000) \<and>
      (si_status p = None \<longrightarrow> s_status (last t) = ''pending'') \<and>
      (\<forall>x. si_status p = Some x \<longrightarrow> s_status (last t) = x) \<and>
      s_status (last t) \<in> set [''active'', ''expired'', ''pending'']) \<and>
   (\<forall>x. si_status p = Some x \<and> x \<notin> set [''active'', ''expired'', ''pending''] \<longrightarrow>
      (\<exists>e. insert_subscriptions s new_id now db p = Inl e) \<and>
      (owns_vendor s db (si_vendor_id p) \<longrightarrow>
         insert_subscriptions s new_id now db p = Inl CheckViolation)) \<and>
   (snd (handlePayment s new_id tc now today later vid db) \<longrightarrow>
      s_status (last (subscriptions (fst (handlePayment s new_id tc now today later vid db))))
        = ''active'' \<and>
      s_amount (last (subscriptions (fst (handlePayment s new_id tc now today later vid db))))
        = Some 5000)"
proof -
  have 1: "insert_subscriptions s new_id now db p = Inr t \<Longrightarrow>
      butlast t = subscriptions db \<and> t \<noteq> [] \<and>
      (si_amount p = None \<longrightarrow> s_amount (last t) = Some 5000) \<and>
      (si_status p = None \<longrightarrow> s_status (last t) = ''pending'') \<and>
      (\<forall>x. si_status p = Some x \<longrightarrow> s_status (last t) = x) \<and>
      s_status (last t) \<in> set [''active'', ''expired'', ''pending'']"
    using insert_subscriptions_Inr [of s new_id now db p t]
    by (auto simp: subscription_defaults_def subscriptions_check_def)
  have 2: "subscriptions_insert_check s db (subscription_defaults new_id now p)
      \<longleftrightarrow> owns_vendor s db (si_vendor_id p)"
    using owns_vendor_authenticated
    by (auto simp: subscriptions_insert_check_def owned_vendor_ids_iff subscription_defaults_def)
  show ?thesis
    using 1 handlePayment_row [of s new_id tc now today later vid db]
    by (auto simp: insert_subscriptions_bad_status 2)
qed

text \<open>Witness for C7: Alice inserts a subscription without amount and status, and one
  with the status \<open>paid\<close>.\<close>

theorem subscription_insert_defaults_witness:
  "insert_subscriptions (Authenticated ''alice'') ''sub2'' 41 market bare_insert
     = Inr [lapsed_subscription, new_subscription] \<and>
   s_amount (last [lapsed_subscription, new_subscription]) = Some 5000 \<and>
   s_status (last [lapsed_subscription, new_subscription]) = ''pending'' \<and>
   insert_subscriptions (Authenticated ''alice'') ''sub2'' 41 market
       (bare_insert\<lparr>si_status := Some ''paid''\<rparr>) = Inl CheckViolation"
proof -
  have a: "insert_subscriptions (Authenticated ''alice'') ''sub2'' 41 market bare_insert
     = Inr [lapsed_subscription, new_subscription]"
    by code_simp
  have b: "si_amount bare_insert = None" "si_status bare_insert = None"
    by (simp_all add: bare_insert_def)
  have c: "si_status (bare_insert\<lparr>si_status := Some ''paid''\<rparr>) = Some ''paid''"
    "''paid'' \<notin> set [''active'', ''expired'', ''pending'']"
    "owns_vendor (Authenticated ''alice'') market
       (si_vendor_id (bare_insert\<lparr>si_status := Some ''paid''\<rparr>))"
    using alice_owns_stall by (simp_all add: bare_insert_def)
  from subscription_insert_defaults
         [of "Authenticated ''alice''" "''sub2''" 41 market bare_insert
             "[lapsed_subscription, new_subscription]"] a b
  have 1: "s_amount (last [lapsed_subscription, new_subscription]) = Some 5000 \<and>
      s_status (last [lapsed_subscription, new_subscription]) = ''pending''"
    by blast
  from subscription_insert_defaults
         [of "Authenticated ''alice''" "''sub2''" 41 market
             "bare_insert\<lparr>si_status := Some ''paid''\<rparr>"] c
  have 2: "insert_subscriptions (Authenticated ''alice'') ''sub2'' 41 market
       (bare_insert\<lparr>si_status := Some ''paid''\<rparr>) = Inl CheckViolation"
    by blast
  from a 1 2 show ?thesis by simp
qed

end
